theory Spec2Isabelle
  imports Complex_Main "HOL-Library.AList" "HOL-Library.Sublist" "HOL-Library.Word"
begin

unbundle bit_operations_syntax

section \<open>Values and documents\<close>

text \<open>
  The handlers of \<^verbatim>\<open>main.py\<close> move Python dictionaries between the HTTP framework and the
  document store. A dictionary is an association list in insertion order (Python dictionaries
  keep it); \<open>AList.update\<close> is Python's \<^verbatim>\<open>d[k] = v\<close> (in place for an existing key, at the
  end for a new one) and \<open>AList.delete\<close> is \<^verbatim>\<open>d.pop(k, None)\<close>.

  A BSON ObjectId is a 12-byte value; Python's \<^verbatim>\<open>str\<close> of it is its 24 hexadecimal digits.
  A finite float is the rational it denotes (the only operation on floats here is the
  comparison with 0); the non-finite floats are outside the model.
\<close>

type_synonym objectid = "96 word"

datatype pyval =
    PNone
  | PBool bool
  | PInt int
  | PFloat rat
  | PStr string
  | PList "pyval list"
  | PObjectId objectid

type_synonym doc = "(string \<times> pyval) list"

definition hex_digit :: "nat \<Rightarrow> char" where
  "hex_digit n = ''0123456789abcdef'' ! (n mod 16)"

definition oid_hex :: "objectid \<Rightarrow> string" where
  "oid_hex w = map (\<lambda>i. hex_digit (unat (drop_bit (4 * i) w AND 15))) (rev [0..<24])"

text \<open>
  Python's \<^verbatim>\<open>str(v)\<close>. The cases that the identity field can hold are written out; the
  text of a number or of a list is left to the parameter \<open>repr\<close>.
\<close>

definition py_str :: "(pyval \<Rightarrow> string) \<Rightarrow> pyval \<Rightarrow> string" where
  "py_str repr v =
     (case v of
        PNone \<Rightarrow> ''None''
      | PBool b \<Rightarrow> (if b then ''True'' else ''False'')
      | PStr s \<Rightarrow> s
      | PObjectId w \<Rightarrow> oid_hex w
      | _ \<Rightarrow> repr v)"

text \<open>\<^verbatim>\<open>doc.get(k)\<close>: the value under \<open>k\<close>, or \<^verbatim>\<open>None\<close>.\<close>

definition dict_get :: "doc \<Rightarrow> string \<Rightarrow> pyval" where
  "dict_get d k = (case map_of d k of None \<Rightarrow> PNone | Some v \<Rightarrow> v)"

section \<open>The response projector\<close>

text \<open>
  \<^verbatim>\<open>
  def to_public(doc: dict):
      if not doc:
          return doc
      doc["id"] = str(doc.get("_id"))
      doc.pop("_id", None)
      return doc
  \<close>
  \<^verbatim>\<open>not doc\<close> holds of \<^verbatim>\<open>None\<close> and of the empty dictionary.
\<close>

definition to_public :: "(pyval \<Rightarrow> string) \<Rightarrow> doc option \<Rightarrow> doc option" where
  "to_public repr doc =
     (case doc of
        None \<Rightarrow> None
      | Some [] \<Rightarrow> Some []
      | Some d \<Rightarrow>
          Some (AList.delete ''_id'' (AList.update ''id'' (PStr (py_str repr (dict_get d ''_id''))) d)))"

section \<open>The document store as the handlers use it\<close>

subsection \<open>Regular expressions\<close>

text \<open>
  The store evaluates \<^verbatim>\<open>{"$regex": p, "$options": o}\<close> with a PCRE engine, as an unanchored
  search. The model computes the search itself on the fragment where PCRE's behaviour is
  plain: the pattern consists of ASCII characters that are ordinary or the wildcard \<open>.\<close>
  (any character but a line feed), the only option is \<open>i\<close>, and the subject is ASCII.
  Everywhere else the answer is the parameter \<open>pcre\<close>, about which nothing is assumed.
\<close>

type_synonym pcre = "string \<Rightarrow> string \<Rightarrow> string \<Rightarrow> bool"

definition regex_meta :: "char list" where
  "regex_meta = CHR 0x5C # ''^$.|?*+()[]{}''"

definition ascii :: "char \<Rightarrow> bool" where
  "ascii c = (\<not> digit7 c)"

definition plain_char :: "char \<Rightarrow> bool" where
  "plain_char c = (ascii c \<and> c \<notin> set regex_meta)"

definition to_lower :: "char \<Rightarrow> char" where
  "to_lower c =
     (case map_of (zip ''ABCDEFGHIJKLMNOPQRSTUVWXYZ'' ''abcdefghijklmnopqrstuvwxyz'') c of
        None \<Rightarrow> c
      | Some l \<Rightarrow> l)"

fun match_here :: "bool \<Rightarrow> string \<Rightarrow> string \<Rightarrow> bool" where
  "match_here ci [] s = True"
| "match_here ci (p # ps) [] = False"
| "match_here ci (p # ps) (c # cs) =
     ((if p = CHR ''.'' then c \<noteq> CHR 0x0A
       else if ci then to_lower p = to_lower c
       else p = c)
      \<and> match_here ci ps cs)"

fun search :: "bool \<Rightarrow> string \<Rightarrow> string \<Rightarrow> bool" where
  "search ci pat [] = match_here ci pat []"
| "search ci pat (c # cs) = (match_here ci pat (c # cs) \<or> search ci pat cs)"

definition regex_search :: "pcre \<Rightarrow> string \<Rightarrow> string \<Rightarrow> string \<Rightarrow> bool" where
  "regex_search pcre pat opts s =
     (if list_all (\<lambda>c. c = CHR ''.'' \<or> plain_char c) pat
         \<and> list_all (\<lambda>c. c = CHR ''i'') opts
         \<and> list_all ascii s
      then search (opts \<noteq> []) pat s
      else pcre pat opts s)"

subsection \<open>Filters\<close>

text \<open>
  The filter documents that the handlers build: a dictionary whose value under a field name
  is a literal (equality) or a dictionary of operators, and whose value under \<^verbatim>\<open>$or\<close> is a
  list of such dictionaries.
\<close>

datatype fcond = FEq pyval | FOps "(string \<times> pyval) list"

type_synonym clause = "(string \<times> fcond) list"

datatype fentry = FCond fcond | FOr "clause list"

type_synonym mfilter = "(string \<times> fentry) list"

text \<open>
  How the store decides a condition on a field. A condition on an array field holds when
  it holds of the array or of one of its elements; numbers compare by value, and only with
  numbers; a regular expression matches strings only; equality with null also holds of a
  missing field. Operators the handlers never send are not modelled (they hold of nothing).
\<close>

definition candidates :: "pyval option \<Rightarrow> pyval list" where
  "candidates fv =
     (case fv of
        None \<Rightarrow> []
      | Some (PList xs) \<Rightarrow> PList xs # xs
      | Some v \<Rightarrow> [v])"

definition num_of :: "pyval \<Rightarrow> rat option" where
  "num_of v = (case v of PInt i \<Rightarrow> Some (of_int i) | PFloat r \<Rightarrow> Some r | _ \<Rightarrow> None)"

definition bson_eq :: "pyval \<Rightarrow> pyval \<Rightarrow> bool" where
  "bson_eq a b =
     (case (num_of a, num_of b) of
        (Some x, Some y) \<Rightarrow> x = y
      | (None, None) \<Rightarrow> a = b
      | _ \<Rightarrow> False)"

definition regex_options :: "(string \<times> pyval) list \<Rightarrow> string" where
  "regex_options ops = (case map_of ops ''$options'' of Some (PStr opts) \<Rightarrow> opts | _ \<Rightarrow> [])"

definition op_holds :: "pcre \<Rightarrow> (string \<times> pyval) list \<Rightarrow> pyval option \<Rightarrow> string \<times> pyval \<Rightarrow> bool" where
  "op_holds pcre ops fv entry =
     (case entry of (name, arg) \<Rightarrow>
        if name = ''$gte'' then
          (case num_of arg of
             Some y \<Rightarrow> list_ex (\<lambda>c. case num_of c of Some x \<Rightarrow> y \<le> x | None \<Rightarrow> False) (candidates fv)
           | None \<Rightarrow> False)
        else if name = ''$lte'' then
          (case num_of arg of
             Some y \<Rightarrow> list_ex (\<lambda>c. case num_of c of Some x \<Rightarrow> x \<le> y | None \<Rightarrow> False) (candidates fv)
           | None \<Rightarrow> False)
        else if name = ''$regex'' then
          (case arg of
             PStr pat \<Rightarrow>
               list_ex (\<lambda>c. case c of PStr s \<Rightarrow> regex_search pcre pat (regex_options ops) s | _ \<Rightarrow> False)
                 (candidates fv)
           | _ \<Rightarrow> False)
        else name = ''$options'')"

definition cond_holds :: "pcre \<Rightarrow> fcond \<Rightarrow> pyval option \<Rightarrow> bool" where
  "cond_holds pcre cond fv =
     (case cond of
        FEq v \<Rightarrow>
          if v = PNone then fv = None \<or> list_ex (\<lambda>c. c = PNone) (candidates fv)
          else list_ex (bson_eq v) (candidates fv)
      | FOps ops \<Rightarrow> ops \<noteq> [] \<and> list_all (op_holds pcre ops fv) ops)"

definition clause_matches :: "pcre \<Rightarrow> clause \<Rightarrow> doc \<Rightarrow> bool" where
  "clause_matches pcre c d = list_all (\<lambda>(k, cond). cond_holds pcre cond (map_of d k)) c"

definition matches :: "pcre \<Rightarrow> mfilter \<Rightarrow> doc \<Rightarrow> bool" where
  "matches pcre f d =
     list_all (\<lambda>(k, e). case e of
                  FCond c \<Rightarrow> cond_holds pcre c (map_of d k)
                | FOr cs \<Rightarrow> k = ''$or'' \<and> list_ex (\<lambda>c. clause_matches pcre c d) cs) f"

subsection \<open>Collections and cursors\<close>

text \<open>
  The store handle \<^verbatim>\<open>db\<close> is \<^verbatim>\<open>None\<close> when the store is not configured. A configured store
  maps a collection name to its documents, in the store's order.
  \<^verbatim>\<open>db[name].find(filt)\<close> yields the documents that the filter matches;
  \<^verbatim>\<open>.limit(n)\<close> keeps the first \<open>|n|\<close> of them, and all of them when \<open>n = 0\<close>.
\<close>

type_synonym store = "(string \<times> doc list) list"

definition collection :: "store \<Rightarrow> string \<Rightarrow> doc list" where
  "collection s name = (case map_of s name of None \<Rightarrow> [] | Some ds \<Rightarrow> ds)"

definition coll_find :: "pcre \<Rightarrow> store \<Rightarrow> string \<Rightarrow> mfilter \<Rightarrow> doc list" where
  "coll_find pcre s name filt = filter (matches pcre filt) (collection s name)"

definition cursor_limit :: "int \<Rightarrow> 'a list \<Rightarrow> 'a list" where
  "cursor_limit n xs = (if n = 0 then xs else take (nat \<bar>n\<bar>) xs)"

section \<open>The read handlers\<close>

text \<open>
  \<^verbatim>\<open>
  def list_animals(q, species, age_min, age_max, size, featured, limit):
      if db is None:
          return []
      filt = {}
      if q:
          filt["$or"] = [
              {"name": {"$regex": q, "$options": "i"}},
              {"breed": {"$regex": q, "$options": "i"}},
              {"description": {"$regex": q, "$options": "i"}},
          ]
      if species:
          filt["species"] = species
      if size:
          filt["size"] = size
      if featured is not None:
          filt["featured"] = featured
      age_query = {}
      if age_min is not None:
          age_query["$gte"] = age_min
      if age_max is not None:
          age_query["$lte"] = age_max
      if age_query:
          filt["age"] = age_query
      docs = db["animal"].find(filt).limit(limit)
      return [to_public(d) for d in docs]

  def featured_animals():
      if db is None:
          return []
      docs = db["animal"].find({"featured": True}).limit(8)
      return [to_public(d) for d in docs]

  def get_stories(limit: int = 6):
      if db is None:
          return []
      docs = db["story"].find({}).limit(limit)
      return [to_public(d) for d in docs]
  \<close>
  \<open>list_animals_filter\<close> is the filter that \<^verbatim>\<open>list_animals\<close> builds (the statements
  between \<^verbatim>\<open>filt = {}\<close> and the query). \<^verbatim>\<open>if q:\<close>, \<^verbatim>\<open>if species:\<close> and \<^verbatim>\<open>if size:\<close> test truthiness: they fail for
  \<^verbatim>\<open>None\<close> and for the empty string. \<^verbatim>\<open>featured\<close>, \<^verbatim>\<open>age_min\<close> and \<^verbatim>\<open>age_max\<close> are
  compared with \<^verbatim>\<open>None\<close>. The parameter \<^verbatim>\<open>size\<close> is written \<open>size'\<close>.
\<close>

definition truthy :: "string option \<Rightarrow> bool" where
  "truthy s = (case s of None \<Rightarrow> False | Some x \<Rightarrow> x \<noteq> [])"

definition q_clauses :: "string \<Rightarrow> clause list" where
  "q_clauses q =
     [[(''name'', FOps [(''$regex'', PStr q), (''$options'', PStr ''i'')])],
      [(''breed'', FOps [(''$regex'', PStr q), (''$options'', PStr ''i'')])],
      [(''description'', FOps [(''$regex'', PStr q), (''$options'', PStr ''i'')])]]"

definition age_query :: "int option \<Rightarrow> int option \<Rightarrow> (string \<times> pyval) list" where
  "age_query age_min age_max =
     (let aq = [];
          aq = (case age_min of None \<Rightarrow> aq | Some m \<Rightarrow> AList.update ''$gte'' (PInt m) aq);
          aq = (case age_max of None \<Rightarrow> aq | Some m \<Rightarrow> AList.update ''$lte'' (PInt m) aq)
      in aq)"

definition list_animals_filter ::
  "string option \<Rightarrow> string option \<Rightarrow> int option \<Rightarrow> int option \<Rightarrow> string option \<Rightarrow> bool option
     \<Rightarrow> mfilter" where
  "list_animals_filter q species age_min age_max size' featured =
     (let filt = [];
          filt = (if truthy q then AList.update ''$or'' (FOr (q_clauses (the q))) filt else filt);
          filt = (if truthy species
                  then AList.update ''species'' (FCond (FEq (PStr (the species)))) filt else filt);
          filt = (if truthy size'
                  then AList.update ''size'' (FCond (FEq (PStr (the size')))) filt else filt);
          filt = (case featured of
                    None \<Rightarrow> filt
                  | Some b \<Rightarrow> AList.update ''featured'' (FCond (FEq (PBool b))) filt);
          aq = age_query age_min age_max;
          filt = (if aq \<noteq> [] then AList.update ''age'' (FCond (FOps aq)) filt else filt)
      in filt)"

definition list_animals ::
  "(pyval \<Rightarrow> string) \<Rightarrow> pcre \<Rightarrow> store option
     \<Rightarrow> string option \<Rightarrow> string option \<Rightarrow> int option \<Rightarrow> int option \<Rightarrow> string option \<Rightarrow> bool option
     \<Rightarrow> int \<Rightarrow> doc option list" where
  "list_animals repr pcre db q species age_min age_max size' featured limit =
     (case db of
        None \<Rightarrow> []
      | Some s \<Rightarrow>
          map (\<lambda>d. to_public repr (Some d))
            (cursor_limit limit
               (coll_find pcre s ''animal''
                  (list_animals_filter q species age_min age_max size' featured))))"

definition featured_animals :: "(pyval \<Rightarrow> string) \<Rightarrow> pcre \<Rightarrow> store option \<Rightarrow> doc option list" where
  "featured_animals repr pcre db =
     (case db of
        None \<Rightarrow> []
      | Some s \<Rightarrow>
          map (\<lambda>d. to_public repr (Some d))
            (cursor_limit 8
               (coll_find pcre s ''animal'' [(''featured'', FCond (FEq (PBool True)))])))"

definition get_stories :: "(pyval \<Rightarrow> string) \<Rightarrow> pcre \<Rightarrow> store option \<Rightarrow> int \<Rightarrow> doc option list" where
  "get_stories repr pcre db limit =
     (case db of
        None \<Rightarrow> []
      | Some s \<Rightarrow>
          map (\<lambda>d. to_public repr (Some d))
            (cursor_limit limit (coll_find pcre s ''story'' [])))"

section \<open>Parameter validation of the read endpoints\<close>

text \<open>
  The framework checks the declared bounds of the query parameters before it calls the
  handler, and answers a violation with a client error that lists every violated bound:
  \<^verbatim>\<open>
  age_min: Optional[int] = Query(None, ge=0)
  age_max: Optional[int] = Query(None, ge=0)
  limit: int = Query(24, ge=1, le=100)        # list_animals
  def featured_animals():                     # no parameter
  def get_stories(limit: int = 6):            # no bound
  \<close>
  A parameter is \<open>None\<close> when the request does not carry it. The parameters are taken as
  already parsed to their declared types.
\<close>

datatype vkind =
    Missing
  | WrongType
  | NotGreaterThan rat
  | NotGreaterEqual int
  | NotLessEqual int
  | BadEmail

type_synonym violation = "string \<times> vkind"

datatype store_error = StoreUnavailable

datatype http_error =
    RequestValidationError "violation list"
  | HTTPException nat store_error

definition check_ge :: "string \<Rightarrow> int \<Rightarrow> int option \<Rightarrow> violation list" where
  "check_ge name lo v =
     (case v of None \<Rightarrow> [] | Some x \<Rightarrow> if lo \<le> x then [] else [(name, NotGreaterEqual lo)])"

definition check_le :: "string \<Rightarrow> int \<Rightarrow> int option \<Rightarrow> violation list" where
  "check_le name hi v =
     (case v of None \<Rightarrow> [] | Some x \<Rightarrow> if x \<le> hi then [] else [(name, NotLessEqual hi)])"

definition list_animals_violations :: "int option \<Rightarrow> int option \<Rightarrow> int option \<Rightarrow> violation list" where
  "list_animals_violations age_min age_max limit =
     check_ge ''age_min'' 0 age_min @ check_ge ''age_max'' 0 age_max
       @ check_ge ''limit'' 1 limit @ check_le ''limit'' 100 limit"

definition GET_animals ::
  "(pyval \<Rightarrow> string) \<Rightarrow> pcre \<Rightarrow> store option
     \<Rightarrow> string option \<Rightarrow> string option \<Rightarrow> int option \<Rightarrow> int option \<Rightarrow> string option \<Rightarrow> bool option
     \<Rightarrow> int option \<Rightarrow> http_error + doc option list" where
  "GET_animals repr pcre db q species age_min age_max size' featured limit =
     (let vs = list_animals_violations age_min age_max limit in
      if vs = []
      then Inr (list_animals repr pcre db q species age_min age_max size' featured
                  (case limit of None \<Rightarrow> 24 | Some l \<Rightarrow> l))
      else Inl (RequestValidationError vs))"

definition GET_animals_featured ::
  "(pyval \<Rightarrow> string) \<Rightarrow> pcre \<Rightarrow> store option \<Rightarrow> http_error + doc option list" where
  "GET_animals_featured repr pcre db = Inr (featured_animals repr pcre db)"

definition GET_stories ::
  "(pyval \<Rightarrow> string) \<Rightarrow> pcre \<Rightarrow> store option \<Rightarrow> int option \<Rightarrow> http_error + doc option list" where
  "GET_stories repr pcre db limit =
     Inr (get_stories repr pcre db (case limit of None \<Rightarrow> 6 | Some l \<Rightarrow> l))"

section \<open>Record schemas\<close>

text \<open>
  A request body is a decoded JSON value. The schemas of \<^verbatim>\<open>schemas.py\<close> declare, for each
  field, whether it is required, its type and its constraint; validation reports every
  violated field. What the validation library does with a value of another JSON type than
  the declared one (it converts some) is the parameter \<open>lib\<close>, as is the e-mail grammar
  beyond its first rule, that an address has an \<open>@\<close>.
\<close>

datatype json =
    JNull
  | JBool bool
  | JInt int
  | JFloat rat
  | JStr string
  | JArr "json list"
  | JObj "(string \<times> json) list"

record pydantic =
  lax_str :: "json \<Rightarrow> string option"
  lax_float :: "json \<Rightarrow> rat option"
  email_syntax :: "string \<Rightarrow> string option"

definition v_str :: "pydantic \<Rightarrow> json \<Rightarrow> vkind + string" where
  "v_str lib j =
     (case j of
        JStr s \<Rightarrow> Inr s
      | JNull \<Rightarrow> Inl WrongType
      | _ \<Rightarrow> (case lax_str lib j of None \<Rightarrow> Inl WrongType | Some s \<Rightarrow> Inr s))"

definition v_float :: "pydantic \<Rightarrow> json \<Rightarrow> vkind + rat" where
  "v_float lib j =
     (case j of
        JInt i \<Rightarrow> Inr (of_int i)
      | JFloat r \<Rightarrow> Inr r
      | JNull \<Rightarrow> Inl WrongType
      | _ \<Rightarrow> (case lax_float lib j of None \<Rightarrow> Inl WrongType | Some r \<Rightarrow> Inr r))"

definition v_gt :: "rat \<Rightarrow> (json \<Rightarrow> vkind + rat) \<Rightarrow> json \<Rightarrow> vkind + rat" where
  "v_gt bound v j =
     (case v j of
        Inl k \<Rightarrow> Inl k
      | Inr r \<Rightarrow> if bound < r then Inr r else Inl (NotGreaterThan bound))"

definition v_email :: "pydantic \<Rightarrow> json \<Rightarrow> vkind + string" where
  "v_email lib j =
     (case v_str lib j of
        Inl k \<Rightarrow> Inl k
      | Inr s \<Rightarrow>
          if CHR ''@'' \<notin> set s then Inl BadEmail
          else (case email_syntax lib s of None \<Rightarrow> Inl BadEmail | Some e \<Rightarrow> Inr e))"

definition v_optional :: "(json \<Rightarrow> vkind + 'a) \<Rightarrow> json \<Rightarrow> vkind + 'a option" where
  "v_optional v j =
     (case j of
        JNull \<Rightarrow> Inr None
      | _ \<Rightarrow> (case v j of Inl k \<Rightarrow> Inl k | Inr x \<Rightarrow> Inr (Some x)))"

fun v_all :: "(json \<Rightarrow> vkind + 'a) \<Rightarrow> json list \<Rightarrow> vkind + 'a list" where
  "v_all v [] = Inr []"
| "v_all v (j # js) =
     (case v j of
        Inl k \<Rightarrow> Inl k
      | Inr x \<Rightarrow> (case v_all v js of Inl k \<Rightarrow> Inl k | Inr xs \<Rightarrow> Inr (x # xs)))"

definition v_list :: "(json \<Rightarrow> vkind + 'a) \<Rightarrow> json \<Rightarrow> vkind + 'a list" where
  "v_list v j = (case j of JArr js \<Rightarrow> v_all v js | _ \<Rightarrow> Inl WrongType)"

text \<open>A field declared with \<^verbatim>\<open>...\<close> or with no default is required; the others have a default.\<close>

definition required :: "string \<Rightarrow> (json \<Rightarrow> vkind + 'a) \<Rightarrow> (string \<times> json) list \<Rightarrow> violation list + 'a" where
  "required name v body =
     (case map_of body name of
        None \<Rightarrow> Inl [(name, Missing)]
      | Some j \<Rightarrow> (case v j of Inl k \<Rightarrow> Inl [(name, k)] | Inr x \<Rightarrow> Inr x))"

definition defaulted :: "string \<Rightarrow> 'a \<Rightarrow> (json \<Rightarrow> vkind + 'a) \<Rightarrow> (string \<times> json) list \<Rightarrow> violation list + 'a" where
  "defaulted name dflt v body =
     (case map_of body name of
        None \<Rightarrow> Inr dflt
      | Some j \<Rightarrow> (case v j of Inl k \<Rightarrow> Inl [(name, k)] | Inr x \<Rightarrow> Inr x))"

definition errs :: "violation list + 'a \<Rightarrow> violation list" where
  "errs r = (case r of Inl vs \<Rightarrow> vs | Inr x \<Rightarrow> [])"

text \<open>
  \<^verbatim>\<open>
  class Application(BaseModel):
      animal_id: str = Field(..., description="Target animal document id")
      full_name: str
      email: EmailStr
      phone: Optional[str] = None
      message: Optional[str] = None
  \<close>
\<close>

record application =
  animal_id :: string
  full_name :: string
  email :: string
  phone :: "string option"
  message :: "string option"

definition validate_application :: "pydantic \<Rightarrow> json \<Rightarrow> violation list + application" where
  "validate_application lib body =
     (case body of
        JObj kv \<Rightarrow>
          (let a = required ''animal_id'' (v_str lib) kv;
               n = required ''full_name'' (v_str lib) kv;
               e = required ''email'' (v_email lib) kv;
               p = defaulted ''phone'' None (v_optional (v_str lib)) kv;
               m = defaulted ''message'' None (v_optional (v_str lib)) kv
           in case (a, n, e, p, m) of
                (Inr a', Inr n', Inr e', Inr p', Inr m') \<Rightarrow>
                  Inr \<lparr>animal_id = a', full_name = n', email = e', phone = p', message = m'\<rparr>
              | _ \<Rightarrow> Inl (errs a @ errs n @ errs e @ errs p @ errs m))
      | _ \<Rightarrow> Inl [(''body'', WrongType)])"

definition dump_application :: "application \<Rightarrow> doc" where
  "dump_application p =
     [(''animal_id'', PStr (animal_id p)),
      (''full_name'', PStr (application.full_name p)),
      (''email'', PStr (application.email p)),
      (''phone'', case phone p of None \<Rightarrow> PNone | Some x \<Rightarrow> PStr x),
      (''message'', case application.message p of None \<Rightarrow> PNone | Some x \<Rightarrow> PStr x)]"

text \<open>
  \<^verbatim>\<open>
  class Volunteer(BaseModel):
      full_name: str
      email: EmailStr
      interests: List[str] = Field(default_factory=list)
      availability: Optional[str] = None
      message: Optional[str] = None
  \<close>
\<close>

record volunteer =
  full_name :: string
  email :: string
  interests :: "string list"
  availability :: "string option"
  message :: "string option"

definition validate_volunteer :: "pydantic \<Rightarrow> json \<Rightarrow> violation list + volunteer" where
  "validate_volunteer lib body =
     (case body of
        JObj kv \<Rightarrow>
          (let n = required ''full_name'' (v_str lib) kv;
               e = required ''email'' (v_email lib) kv;
               i = defaulted ''interests'' [] (v_list (v_str lib)) kv;
               a = defaulted ''availability'' None (v_optional (v_str lib)) kv;
               m = defaulted ''message'' None (v_optional (v_str lib)) kv
           in case (n, e, i, a, m) of
                (Inr n', Inr e', Inr i', Inr a', Inr m') \<Rightarrow>
                  Inr \<lparr>full_name = n', email = e', interests = i', availability = a', message = m'\<rparr>
              | _ \<Rightarrow> Inl (errs n @ errs e @ errs i @ errs a @ errs m))
      | _ \<Rightarrow> Inl [(''body'', WrongType)])"

definition dump_volunteer :: "volunteer \<Rightarrow> doc" where
  "dump_volunteer p =
     [(''full_name'', PStr (volunteer.full_name p)),
      (''email'', PStr (volunteer.email p)),
      (''interests'', PList (map PStr (interests p))),
      (''availability'', case availability p of None \<Rightarrow> PNone | Some x \<Rightarrow> PStr x),
      (''message'', case volunteer.message p of None \<Rightarrow> PNone | Some x \<Rightarrow> PStr x)]"

text \<open>
  \<^verbatim>\<open>
  class Donation(BaseModel):
      full_name: str
      email: Optional[EmailStr] = None
      amount: float = Field(..., gt=0)
      message: Optional[str] = None
  \<close>
\<close>

record donation =
  full_name :: string
  email :: "string option"
  amount :: rat
  message :: "string option"

definition validate_donation :: "pydantic \<Rightarrow> json \<Rightarrow> violation list + donation" where
  "validate_donation lib body =
     (case body of
        JObj kv \<Rightarrow>
          (let n = required ''full_name'' (v_str lib) kv;
               e = defaulted ''email'' None (v_optional (v_email lib)) kv;
               a = required ''amount'' (v_gt 0 (v_float lib)) kv;
               m = defaulted ''message'' None (v_optional (v_str lib)) kv
           in case (n, e, a, m) of
                (Inr n', Inr e', Inr a', Inr m') \<Rightarrow>
                  Inr \<lparr>full_name = n', email = e', amount = a', message = m'\<rparr>
              | _ \<Rightarrow> Inl (errs n @ errs e @ errs a @ errs m))
      | _ \<Rightarrow> Inl [(''body'', WrongType)])"

definition dump_donation :: "donation \<Rightarrow> doc" where
  "dump_donation p =
     [(''full_name'', PStr (donation.full_name p)),
      (''email'', case donation.email p of None \<Rightarrow> PNone | Some x \<Rightarrow> PStr x),
      (''amount'', PFloat (amount p)),
      (''message'', case donation.message p of None \<Rightarrow> PNone | Some x \<Rightarrow> PStr x)]"

text \<open>
  \<^verbatim>\<open>
  class Animal(BaseModel):
      name: str = Field(...)
      species: Literal["dog", "cat", "rabbit", "bird", "other"] = Field(...)
      breed: Optional[str] = Field(None)
      age: int = Field(..., ge=0, le=40)
      size: Literal["small", "medium", "large", "xlarge"] = Field(...)
      gender: Optional[Literal["male", "female"]] = Field(None)
      description: Optional[str] = Field(None)
      photos: List[str] = Field(default_factory=list)
      featured: bool = Field(default=False)
      location: Optional[str] = Field(None)
      good_with_kids: Optional[bool] = None
      good_with_pets: Optional[bool] = None
  \<close>
  The field \<^verbatim>\<open>size\<close> is written \<open>size'\<close>. An integer or a boolean field takes a JSON
  value of its own type; what the library converts from another type is again left open,
  here as two more parameters.
\<close>

record animal =
  name :: string
  species :: string
  breed :: "string option"
  age :: int
  size' :: string
  gender :: "string option"
  description :: "string option"
  photos :: "string list"
  featured :: bool
  location :: "string option"
  good_with_kids :: "bool option"
  good_with_pets :: "bool option"

definition v_literal :: "string list \<Rightarrow> json \<Rightarrow> vkind + string" where
  "v_literal allowed j =
     (case j of JStr s \<Rightarrow> if s \<in> set allowed then Inr s else Inl WrongType | _ \<Rightarrow> Inl WrongType)"

definition v_int :: "(json \<Rightarrow> int option) \<Rightarrow> json \<Rightarrow> vkind + int" where
  "v_int lax j =
     (case j of
        JInt i \<Rightarrow> Inr i
      | JNull \<Rightarrow> Inl WrongType
      | _ \<Rightarrow> (case lax j of None \<Rightarrow> Inl WrongType | Some i \<Rightarrow> Inr i))"

definition v_range :: "int \<Rightarrow> int \<Rightarrow> (json \<Rightarrow> vkind + int) \<Rightarrow> json \<Rightarrow> vkind + int" where
  "v_range lo hi v j =
     (case v j of
        Inl k \<Rightarrow> Inl k
      | Inr i \<Rightarrow>
          if i < lo then Inl (NotGreaterEqual lo)
          else if hi < i then Inl (NotLessEqual hi)
          else Inr i)"

definition v_bool :: "(json \<Rightarrow> bool option) \<Rightarrow> json \<Rightarrow> vkind + bool" where
  "v_bool lax j =
     (case j of
        JBool b \<Rightarrow> Inr b
      | JNull \<Rightarrow> Inl WrongType
      | _ \<Rightarrow> (case lax j of None \<Rightarrow> Inl WrongType | Some b \<Rightarrow> Inr b))"

definition validate_animal ::
  "pydantic \<Rightarrow> (json \<Rightarrow> int option) \<Rightarrow> (json \<Rightarrow> bool option) \<Rightarrow> json \<Rightarrow> violation list + animal" where
  "validate_animal lib lax_int lax_bool body =
     (case body of
        JObj kv \<Rightarrow>
          (let n = required ''name'' (v_str lib) kv;
               s = required ''species'' (v_literal [''dog'', ''cat'', ''rabbit'', ''bird'', ''other'']) kv;
               b = defaulted ''breed'' None (v_optional (v_str lib)) kv;
               a = required ''age'' (v_range 0 40 (v_int lax_int)) kv;
               z = required ''size'' (v_literal [''small'', ''medium'', ''large'', ''xlarge'']) kv;
               g = defaulted ''gender'' None (v_optional (v_literal [''male'', ''female''])) kv;
               d = defaulted ''description'' None (v_optional (v_str lib)) kv;
               p = defaulted ''photos'' [] (v_list (v_str lib)) kv;
               f = defaulted ''featured'' False (v_bool lax_bool) kv;
               l = defaulted ''location'' None (v_optional (v_str lib)) kv;
               k = defaulted ''good_with_kids'' None (v_optional (v_bool lax_bool)) kv;
               t = defaulted ''good_with_pets'' None (v_optional (v_bool lax_bool)) kv
           in case (n, s, b, a, z, g, d, p, f, l, k, t) of
                (Inr n', Inr s', Inr b', Inr a', Inr z', Inr g', Inr d', Inr p', Inr f', Inr l',
                 Inr k', Inr t') \<Rightarrow>
                  Inr \<lparr>name = n', species = s', breed = b', age = a', size' = z', gender = g',
                       description = d', photos = p', featured = f', location = l',
                       good_with_kids = k', good_with_pets = t'\<rparr>
              | _ \<Rightarrow>
                  Inl (errs n @ errs s @ errs b @ errs a @ errs z @ errs g @ errs d @ errs p
                         @ errs f @ errs l @ errs k @ errs t))
      | _ \<Rightarrow> Inl [(''body'', WrongType)])"

definition opt_str :: "string option \<Rightarrow> pyval" where
  "opt_str x = (case x of None \<Rightarrow> PNone | Some s \<Rightarrow> PStr s)"

definition opt_bool :: "bool option \<Rightarrow> pyval" where
  "opt_bool x = (case x of None \<Rightarrow> PNone | Some b \<Rightarrow> PBool b)"

definition dump_animal :: "animal \<Rightarrow> doc" where
  "dump_animal a =
     [(''name'', PStr (name a)),
      (''species'', PStr (species a)),
      (''breed'', opt_str (breed a)),
      (''age'', PInt (age a)),
      (''size'', PStr (size' a)),
      (''gender'', opt_str (gender a)),
      (''description'', opt_str (description a)),
      (''photos'', PList (map PStr (photos a))),
      (''featured'', PBool (featured a)),
      (''location'', opt_str (location a)),
      (''good_with_kids'', opt_bool (good_with_kids a)),
      (''good_with_pets'', opt_bool (good_with_pets a))]"

text \<open>A document as the store holds and returns it: the identity first, then the fields.\<close>

definition stored :: "objectid \<Rightarrow> doc \<Rightarrow> doc" where
  "stored oid d = (''_id'', PObjectId oid) # d"

text \<open>The first two animals of \<^verbatim>\<open>seed_data\<close>, used as examples below.\<close>

definition luna :: animal where
  "luna =
     \<lparr>name = ''Luna'', species = ''dog'', breed = Some ''Labrador Mix'', age = 3,
      size' = ''large'', gender = Some ''female'',
      description = Some ''Playful, gentle, loves long walks and belly rubs.'',
      photos = [''https://images.unsplash.com/photo-1543466835-00a7907e9de1?q=80&w=1200&auto=format&fit=crop''],
      featured = True, location = Some ''Shelter A'',
      good_with_kids = Some True, good_with_pets = Some True\<rparr>"

definition milo :: animal where
  "milo =
     \<lparr>name = ''Milo'', species = ''cat'', breed = Some ''Tabby'', age = 2,
      size' = ''medium'', gender = Some ''male'',
      description = Some ''Calm cuddle buddy who enjoys sunny windows.'',
      photos = [''https://images.unsplash.com/photo-1518791841217-8f162f1e1131?q=80&w=1200&auto=format&fit=crop''],
      featured = True, location = Some ''Shelter B'',
      good_with_kids = Some True, good_with_pets = Some False\<rparr>"

section \<open>The write handlers\<close>

text \<open>
  Modelled from the spec: \<^verbatim>\<open>create_document\<close> of the module \<^verbatim>\<open>database\<close>, which is not among
  the sources. The spec: the store adapter exposes \<open>insert(collection, document) -> id\<close>;
  the identity of a record is assigned once, at creation, by the store; a single insert
  either fully succeeds, yielding one identity, or fully fails; with the store unconfigured
  a write fails. The identity that the store assigns is the argument \<open>oid\<close>; the handler
  receives its text.
\<close>

definition create_document ::
  "store option \<Rightarrow> objectid \<Rightarrow> string \<Rightarrow> doc \<Rightarrow> store_error + (string \<times> store option)" where
  "create_document db oid coll data =
     (case db of
        None \<Rightarrow> Inl StoreUnavailable
      | Some s \<Rightarrow>
          Inr (oid_hex oid, Some (AList.update coll (collection s coll @ [stored oid data]) s)))"

text \<open>
  \<^verbatim>\<open>
  def submit_donation(payload: Donation):
      try:
          did = create_document("donation", payload)
          return {"id": did, "status": "pledged"}
      except Exception as e:
          raise HTTPException(status_code=500, detail=str(e))
  \<close>
  and likewise \<^verbatim>\<open>submit_application\<close> and \<^verbatim>\<open>submit_volunteer\<close>, with the status
  \<^verbatim>\<open>"received"\<close>. A handler returns its outcome and the store after it.
\<close>

definition submit_application ::
  "store option \<Rightarrow> objectid \<Rightarrow> application \<Rightarrow> (http_error + doc) \<times> store option" where
  "submit_application db oid payload =
     (case create_document db oid ''application'' (dump_application payload) of
        Inl e \<Rightarrow> (Inl (HTTPException 500 e), db)
      | Inr (app_id, db') \<Rightarrow> (Inr [(''id'', PStr app_id), (''status'', PStr ''received'')], db'))"

definition submit_volunteer ::
  "store option \<Rightarrow> objectid \<Rightarrow> volunteer \<Rightarrow> (http_error + doc) \<times> store option" where
  "submit_volunteer db oid payload =
     (case create_document db oid ''volunteer'' (dump_volunteer payload) of
        Inl e \<Rightarrow> (Inl (HTTPException 500 e), db)
      | Inr (vid, db') \<Rightarrow> (Inr [(''id'', PStr vid), (''status'', PStr ''received'')], db'))"

definition submit_donation ::
  "store option \<Rightarrow> objectid \<Rightarrow> donation \<Rightarrow> (http_error + doc) \<times> store option" where
  "submit_donation db oid payload =
     (case create_document db oid ''donation'' (dump_donation payload) of
        Inl e \<Rightarrow> (Inl (HTTPException 500 e), db)
      | Inr (did, db') \<Rightarrow> (Inr [(''id'', PStr did), (''status'', PStr ''pledged'')], db'))"

text \<open>
  The framework validates the body against the handler's declared schema and calls the
  handler only with a validated record; a body that fails is answered with the violations.
\<close>

definition POST_applications ::
  "pydantic \<Rightarrow> store option \<Rightarrow> objectid \<Rightarrow> json \<Rightarrow> (http_error + doc) \<times> store option" where
  "POST_applications lib db oid body =
     (case validate_application lib body of
        Inl vs \<Rightarrow> (Inl (RequestValidationError vs), db)
      | Inr payload \<Rightarrow> submit_application db oid payload)"

definition POST_volunteers ::
  "pydantic \<Rightarrow> store option \<Rightarrow> objectid \<Rightarrow> json \<Rightarrow> (http_error + doc) \<times> store option" where
  "POST_volunteers lib db oid body =
     (case validate_volunteer lib body of
        Inl vs \<Rightarrow> (Inl (RequestValidationError vs), db)
      | Inr payload \<Rightarrow> submit_volunteer db oid payload)"

definition POST_donations ::
  "pydantic \<Rightarrow> store option \<Rightarrow> objectid \<Rightarrow> json \<Rightarrow> (http_error + doc) \<times> store option" where
  "POST_donations lib db oid body =
     (case validate_donation lib body of
        Inl vs \<Rightarrow> (Inl (RequestValidationError vs), db)
      | Inr payload \<Rightarrow> submit_donation db oid payload)"

section \<open>What the specification says of the search\<close>

text \<open>
  The specification's words, as definitions of their own, to compare with the filter that
  the handler builds. A string contains another as a case-insensitive substring when it
  does after both are put in lower case.
\<close>

definition ci_contains :: "string \<Rightarrow> string \<Rightarrow> bool" where
  "ci_contains q s = sublist (map to_lower q) (map to_lower s)"

definition q_spec :: "string \<Rightarrow> animal \<Rightarrow> bool" where
  "q_spec q a =
     (ci_contains q (name a)
      \<or> (case breed a of None \<Rightarrow> False | Some b \<Rightarrow> ci_contains q b)
      \<or> (case description a of None \<Rightarrow> False | Some t \<Rightarrow> ci_contains q t))"

text \<open>
  The constraint of \<^verbatim>\<open>q\<close> as the handler sends it: the pattern \<open>q\<close>, with the option \<open>i\<close>,
  finds a match in the name, the breed or the description.
\<close>

definition q_regex :: "pcre \<Rightarrow> string \<Rightarrow> animal \<Rightarrow> bool" where
  "q_regex pcre q a =
     (regex_search pcre q ''i'' (name a)
      \<or> (case breed a of None \<Rightarrow> False | Some b \<Rightarrow> regex_search pcre q ''i'' b)
      \<or> (case description a of None \<Rightarrow> False | Some t \<Rightarrow> regex_search pcre q ''i'' t))"

text \<open>
  The conjunction of the constraints of the parameters that are supplied (\<open>Some\<close>); a
  parameter that is not supplied (\<open>None\<close>) adds nothing.
\<close>

definition supplied_conj ::
  "pcre \<Rightarrow> string option \<Rightarrow> string option \<Rightarrow> int option \<Rightarrow> int option \<Rightarrow> string option \<Rightarrow> bool option
     \<Rightarrow> animal \<Rightarrow> bool" where
  "supplied_conj pcre q sp amin amax sz ft a =
     ((case q of None \<Rightarrow> True | Some x \<Rightarrow> q_regex pcre x a)
      \<and> (case sp of None \<Rightarrow> True | Some x \<Rightarrow> species a = x)
      \<and> (case amin of None \<Rightarrow> True | Some m \<Rightarrow> m \<le> age a)
      \<and> (case amax of None \<Rightarrow> True | Some m \<Rightarrow> age a \<le> m)
      \<and> (case sz of None \<Rightarrow> True | Some x \<Rightarrow> size' a = x)
      \<and> (case ft of None \<Rightarrow> True | Some b \<Rightarrow> featured a = b))"

text \<open>A blank string parameter counts as one that is not supplied.\<close>

definition nonblank :: "string option \<Rightarrow> string option" where
  "nonblank s = (if truthy s then s else None)"

text \<open>An Animal whose searched fields are ASCII text.\<close>

definition ascii_fields :: "animal \<Rightarrow> bool" where
  "ascii_fields a =
     (list_all ascii (name a)
      \<and> (case breed a of None \<Rightarrow> True | Some b \<Rightarrow> list_all ascii b)
      \<and> (case description a of None \<Rightarrow> True | Some t \<Rightarrow> list_all ascii t))"

section \<open>Example inputs\<close>

text \<open>
  A validation library that converts nothing and accepts every address with an \<open>@\<close>, and
  the request body of the first seed animal.
\<close>

definition no_conversion :: pydantic where
  "no_conversion = \<lparr>lax_str = (\<lambda>j. None), lax_float = (\<lambda>j. None), email_syntax = Some\<rparr>"

definition luna_body :: json where
  "luna_body =
     JObj [(''name'', JStr ''Luna''), (''species'', JStr ''dog''), (''breed'', JStr ''Labrador Mix''),
           (''age'', JInt 3), (''size'', JStr ''large''), (''gender'', JStr ''female''),
           (''description'', JStr ''Playful, gentle, loves long walks and belly rubs.''),
           (''photos'', JArr [JStr ''https://images.unsplash.com/photo-1543466835-00a7907e9de1?q=80&w=1200&auto=format&fit=crop'']),
           (''featured'', JBool True), (''location'', JStr ''Shelter A''),
           (''good_with_kids'', JBool True), (''good_with_pets'', JBool True)]"

text \<open>Request bodies of a donation with a given amount, and of an application.\<close>

definition donation_body :: "json \<Rightarrow> json" where
  "donation_body amt = JObj [(''full_name'', JStr ''Ann''), (''amount'', amt)]"

definition application_body :: json where
  "application_body =
     JObj [(''animal_id'', JStr ''507f1f77bcf86cd799439011''), (''full_name'', JStr ''Ann''),
           (''email'', JStr ''not-an-email'')]"

section \<open>The response projector: properties\<close>

lemma to_public_nonempty:
  assumes "d \<noteq> []"
  shows "to_public repr (Some d) =
           Some (AList.delete ''_id'' (AList.update ''id'' (PStr (py_str repr (dict_get d ''_id''))) d))"
  using assms by (cases d) (simp_all add: to_public_def)

lemma to_public_stored_animal:
  "to_public repr (Some (stored oid (dump_animal a))) =
     Some (dump_animal a @ [(''id'', PStr (oid_hex oid))])"
  by (simp add: to_public_def stored_def dump_animal_def dict_get_def py_str_def)

lemma validate_luna: "validate_animal no_conversion (\<lambda>j. None) (\<lambda>j. None) luna_body = Inr luna"
  by (simp add: validate_animal_def luna_body_def luna_def required_def defaulted_def
      v_str_def v_literal_def v_optional_def v_range_def v_int_def v_list_def v_bool_def)

lemma oid_example: "oid_hex 0x507f1f77bcf86cd799439011 = ''507f1f77bcf86cd799439011''"
  by code_simp

text \<open>
  C7. A missing document projects to a missing document. For a document with a store
  identity, the projection exists, holds the text of the identity under \<open>id\<close>, has no
  \<open>_id\<close>, and agrees with the document on every other field. A validated Animal, stored
  and projected, is its own fields followed by \<open>id\<close>.
\<close>

theorem to_public_projection:
  "to_public repr None = None
   \<and> (map_of d ''_id'' = Some v \<longrightarrow>
        (\<exists>d'. to_public repr (Some d) = Some d'
            \<and> map_of d' ''id'' = Some (PStr (py_str repr v))
            \<and> map_of d' ''_id'' = None
            \<and> (\<forall>k. k \<noteq> ''id'' \<and> k \<noteq> ''_id'' \<longrightarrow> map_of d' k = map_of d k)))
   \<and> (validate_animal lib lax_int lax_bool body = Inr a \<longrightarrow>
        to_public repr (Some (stored oid (dump_animal a)))
          = Some (dump_animal a @ [(''id'', PStr (oid_hex oid))]))"
proof (intro conjI impI)
  show "to_public repr None = None"
    by (simp add: to_public_def)
next
  assume v: "map_of d ''_id'' = Some v"
  then have "d \<noteq> []" by auto
  then have "to_public repr (Some d) =
      Some (AList.delete ''_id'' (AList.update ''id'' (PStr (py_str repr (dict_get d ''_id''))) d))"
    by (rule to_public_nonempty)
  moreover have "dict_get d ''_id'' = v"
    using v by (simp add: dict_get_def)
  ultimately show "\<exists>d'. to_public repr (Some d) = Some d'
            \<and> map_of d' ''id'' = Some (PStr (py_str repr v))
            \<and> map_of d' ''_id'' = None
            \<and> (\<forall>k. k \<noteq> ''id'' \<and> k \<noteq> ''_id'' \<longrightarrow> map_of d' k = map_of d k)"
    by (simp add: delete_conv' update_conv')
next
  show "to_public repr (Some (stored oid (dump_animal a)))
          = Some (dump_animal a @ [(''id'', PStr (oid_hex oid))])"
    by (rule to_public_stored_animal)
qed

theorem to_public_projection_witness:
  "validate_animal no_conversion (\<lambda>j. None) (\<lambda>j. None) luna_body = Inr luna
   \<and> map_of (stored 0x507f1f77bcf86cd799439011 (dump_animal luna)) ''_id''
       = Some (PObjectId 0x507f1f77bcf86cd799439011)
   \<and> to_public (\<lambda>v. []) (Some (stored 0x507f1f77bcf86cd799439011 (dump_animal luna)))
       = Some (dump_animal luna @ [(''id'', PStr ''507f1f77bcf86cd799439011'')])"
  using to_public_projection [of "\<lambda>v. []" "stored 0x507f1f77bcf86cd799439011 (dump_animal luna)"
      "PObjectId 0x507f1f77bcf86cd799439011" no_conversion "\<lambda>j. None" "\<lambda>j. None" luna_body luna
      "0x507f1f77bcf86cd799439011"]
    validate_luna oid_example
  by (simp add: stored_def)

section \<open>The read endpoints without a store\<close>

text \<open>
  C4. As stated the claim fails: the bounds of the query parameters are checked before the
  handler runs, so with the store not configured a request for the animals with the limit
  0, or with the lower age bound -1, is answered with a validation error and not with
  the empty list.
\<close>

theorem unconfigured_store_invalid_limit_counterexample:
  "GET_animals (\<lambda>v. []) (\<lambda>p opts s. False) None None None None None None None (Some 0)
     = Inl (RequestValidationError [(''limit'', NotGreaterEqual 1)])
   \<and> GET_animals (\<lambda>v. []) (\<lambda>p opts s. False) None None None None None None None (Some 0)
     \<noteq> Inr []
   \<and> GET_animals (\<lambda>v. []) (\<lambda>p opts s. False) None None None (Some (- 1)) None None None None
     = Inl (RequestValidationError [(''age_min'', NotGreaterEqual 0)])"
  by (simp add: GET_animals_def list_animals_violations_def check_ge_def check_le_def)

text \<open>
  C4, amended. With the store not configured, the three read handlers return the empty
  list whatever their arguments are, and so do the three endpoints for every request that
  passes the parameter validation.
\<close>

theorem unconfigured_store_reads_empty:
  "list_animals repr pcre None q sp amin amax sz ft n = []
   \<and> featured_animals repr pcre None = []
   \<and> get_stories repr pcre None n = []
   \<and> (list_animals_violations amin amax limit = [] \<longrightarrow>
        GET_animals repr pcre None q sp amin amax sz ft limit = Inr [])
   \<and> GET_animals_featured repr pcre None = Inr []
   \<and> GET_stories repr pcre None limit = Inr []"
  by (simp add: list_animals_def featured_animals_def get_stories_def GET_animals_def
      GET_animals_featured_def GET_stories_def)

theorem unconfigured_store_reads_empty_witness:
  "list_animals_violations (Some 2) (Some 5) (Some 100) = []
   \<and> GET_animals (\<lambda>v. []) (\<lambda>p opts s. False) None (Some ''lab'') (Some ''dog'') (Some 2) (Some 5)
        (Some ''large'') (Some True) (Some 100) = Inr []
   \<and> GET_stories (\<lambda>v. []) (\<lambda>p opts s. False) None (Some 0) = Inr []"
  using unconfigured_store_reads_empty [of "\<lambda>v. []" "\<lambda>p opts s. False" "Some ''lab''" "Some ''dog''"
      "Some 2" "Some 5" "Some ''large''" "Some True" 0 "Some 100"]
     unconfigured_store_reads_empty [of "\<lambda>v. []" "\<lambda>p opts s. False" "Some ''lab''" "Some ''dog''"
      "Some 2" "Some 5" "Some ''large''" "Some True" 0 "Some 0"]
  by (simp add: list_animals_violations_def check_ge_def check_le_def)

section \<open>The filter of the animal search\<close>

text \<open>
  The filter is the list of the entries that the handler adds, in the handler's order;
  a filter matches a document when each of its entries does. On a stored Animal each entry
  says what its parameter asks for.
\<close>

lemma age_query_eq:
  "age_query amin amax =
     (case amin of None \<Rightarrow> [] | Some m \<Rightarrow> [(''$gte'', PInt m)])
       @ (case amax of None \<Rightarrow> [] | Some m \<Rightarrow> [(''$lte'', PInt m)])"
  by (simp add: age_query_def split: option.splits)

lemma list_animals_filter_eq:
  "list_animals_filter q sp amin amax sz ft =
     (if truthy q then [(''$or'', FOr (q_clauses (the q)))] else [])
       @ (if truthy sp then [(''species'', FCond (FEq (PStr (the sp))))] else [])
       @ (if truthy sz then [(''size'', FCond (FEq (PStr (the sz))))] else [])
       @ (case ft of None \<Rightarrow> [] | Some b \<Rightarrow> [(''featured'', FCond (FEq (PBool b)))])
       @ (if age_query amin amax \<noteq> [] then [(''age'', FCond (FOps (age_query amin amax)))] else [])"
  by (simp add: list_animals_filter_def split: option.splits)

lemma matches_append: "matches pcre (f @ g) d = (matches pcre f d \<and> matches pcre g d)"
  by (simp add: matches_def)

lemma matches_Nil: "matches pcre [] d"
  by (simp add: matches_def)

lemma regex_on_str:
  "cond_holds pcre (FOps [(''$regex'', PStr q), (''$options'', PStr ''i'')]) (Some (PStr s))
     = regex_search pcre q ''i'' s"
  by (simp add: cond_holds_def op_holds_def candidates_def regex_options_def)

lemma regex_on_opt:
  "cond_holds pcre (FOps [(''$regex'', PStr q), (''$options'', PStr ''i'')]) (Some (opt_str x))
     = (case x of None \<Rightarrow> False | Some s \<Rightarrow> regex_search pcre q ''i'' s)"
  by (simp add: cond_holds_def op_holds_def candidates_def regex_options_def opt_str_def
      split: option.splits)

lemma matches_q:
  "matches pcre [(''$or'', FOr (q_clauses x))] (stored oid (dump_animal a)) = q_regex pcre x a"
  by (simp add: matches_def q_clauses_def clause_matches_def stored_def dump_animal_def
      regex_on_str regex_on_opt q_regex_def)

lemma eq_on_str:
  "cond_holds pcre (FEq (PStr x)) (Some (PStr s)) = (s = x)"
  by (auto simp add: cond_holds_def candidates_def bson_eq_def num_of_def)

lemma eq_on_bool:
  "cond_holds pcre (FEq (PBool x)) (Some (PBool b)) = (b = x)"
  by (auto simp add: cond_holds_def candidates_def bson_eq_def num_of_def)

lemma matches_species:
  "matches pcre [(''species'', FCond (FEq (PStr x)))] (stored oid (dump_animal a)) = (species a = x)"
  by (simp add: matches_def stored_def dump_animal_def eq_on_str)

lemma matches_size:
  "matches pcre [(''size'', FCond (FEq (PStr x)))] (stored oid (dump_animal a)) = (size' a = x)"
  by (simp add: matches_def stored_def dump_animal_def eq_on_str)

lemma matches_featured:
  "matches pcre [(''featured'', FCond (FEq (PBool x)))] (stored oid (dump_animal a)) = (featured a = x)"
  by (simp add: matches_def stored_def dump_animal_def eq_on_bool)

lemma ops_on_int:
  "aq = age_query amin amax \<Longrightarrow> aq \<noteq> [] \<Longrightarrow>
   cond_holds pcre (FOps aq) (Some (PInt n))
     = ((case amin of None \<Rightarrow> True | Some m \<Rightarrow> m \<le> n) \<and> (case amax of None \<Rightarrow> True | Some m \<Rightarrow> n \<le> m))"
  by (auto simp add: age_query_eq cond_holds_def op_holds_def candidates_def num_of_def
      split: option.splits)

lemma matches_age:
  "age_query amin amax \<noteq> [] \<Longrightarrow>
   matches pcre [(''age'', FCond (FOps (age_query amin amax)))] (stored oid (dump_animal a))
     = ((case amin of None \<Rightarrow> True | Some m \<Rightarrow> m \<le> age a) \<and> (case amax of None \<Rightarrow> True | Some m \<Rightarrow> age a \<le> m))"
  by (simp add: matches_def stored_def dump_animal_def ops_on_int)

lemma age_query_Nil: "(age_query amin amax = []) = (amin = None \<and> amax = None)"
  by (simp add: age_query_eq split: option.splits)

lemma matches_list_animals_filter:
  "matches pcre (list_animals_filter q sp amin amax sz ft) (stored oid (dump_animal a))
     = supplied_conj pcre (nonblank q) (nonblank sp) amin amax (nonblank sz) ft a"
proof -
  have age: "(if age_query amin amax \<noteq> []
              then matches pcre [(''age'', FCond (FOps (age_query amin amax)))] (stored oid (dump_animal a))
              else True)
             = ((case amin of None \<Rightarrow> True | Some m \<Rightarrow> m \<le> age a) \<and> (case amax of None \<Rightarrow> True | Some m \<Rightarrow> age a \<le> m))"
    by (cases "age_query amin amax = []") (simp_all add: matches_age age_query_Nil)
  have "matches pcre (list_animals_filter q sp amin amax sz ft) (stored oid (dump_animal a))
      = ((if truthy q then q_regex pcre (the q) a else True)
         \<and> (if truthy sp then species a = the sp else True)
         \<and> (if truthy sz then size' a = the sz else True)
         \<and> (case ft of None \<Rightarrow> True | Some b \<Rightarrow> featured a = b)
         \<and> (if age_query amin amax \<noteq> []
              then matches pcre [(''age'', FCond (FOps (age_query amin amax)))] (stored oid (dump_animal a))
              else True))"
    by (simp add: list_animals_filter_eq matches_append matches_Nil matches_q matches_species
        matches_size matches_featured split: option.splits)
  also have "\<dots> = supplied_conj pcre (nonblank q) (nonblank sp) amin amax (nonblank sz) ft a"
    unfolding age
    by (auto simp add: supplied_conj_def nonblank_def truthy_def split: option.splits)
  finally show ?thesis .
qed

lemma cursor_limit_map: "cursor_limit n (map f xs) = map f (cursor_limit n xs)"
  by (simp add: cursor_limit_def take_map)

lemma list_animals_on_animals:
  assumes "collection s ''animal'' = map (\<lambda>(oid, a). stored oid (dump_animal a)) xs"
  shows "list_animals repr pcre (Some s) q sp amin amax sz ft n =
           map (\<lambda>(oid, a). Some (dump_animal a @ [(''id'', PStr (oid_hex oid))]))
             (cursor_limit n
                (filter (\<lambda>(oid, a). supplied_conj pcre (nonblank q) (nonblank sp) amin amax (nonblank sz) ft a)
                   xs))"
proof -
  have "filter (matches pcre (list_animals_filter q sp amin amax sz ft))
          (map (\<lambda>(oid, a). stored oid (dump_animal a)) xs)
        = map (\<lambda>(oid, a). stored oid (dump_animal a))
            (filter (\<lambda>(oid, a). supplied_conj pcre (nonblank q) (nonblank sp) amin amax (nonblank sz) ft a) xs)"
    by (induction xs) (auto simp add: matches_list_animals_filter)
  then show ?thesis
    using assms
    by (simp add: list_animals_def coll_find_def cursor_limit_map to_public_stored_animal
        case_prod_unfold comp_def)
qed

lemma luna_lab: "q_regex (\<lambda>p opts s. False) ''lab'' luna"
  by (simp add: q_regex_def regex_search_def luna_def plain_char_def ascii_def regex_meta_def
      to_lower_def)

lemma milo_lab: "\<not> q_regex (\<lambda>p opts s. False) ''lab'' milo"
  by (simp add: q_regex_def regex_search_def milo_def plain_char_def ascii_def regex_meta_def
      to_lower_def)

text \<open>
  C1. As stated the claim fails: a parameter that is supplied as the empty string adds no
  constraint, where the claim asks for the documents whose field is the empty string.
\<close>

theorem blank_species_counterexample:
  "matches (\<lambda>p opts s. False) (list_animals_filter None (Some '''') None None None None)
     (stored 1 (dump_animal luna))
   \<and> \<not> supplied_conj (\<lambda>p opts s. False) None (Some '''') None None None None luna"
  by (simp add: matches_list_animals_filter supplied_conj_def nonblank_def truthy_def luna_def)

text \<open>
  C1, amended. On every stored Animal the filter is the conjunction of the constraints of
  the parameters that are supplied and, for \<open>q\<close>, \<open>species\<close> and \<open>size\<close>, not blank; a
  parameter that is absent or blank adds nothing. On a collection of stored Animals the
  handler returns the projections of the first \<open>limit\<close> documents that satisfy it.
\<close>

theorem filter_is_conjunction_of_nonblank:
  "matches pcre (list_animals_filter q sp amin amax sz ft) (stored oid (dump_animal a))
     = supplied_conj pcre (nonblank q) (nonblank sp) amin amax (nonblank sz) ft a
   \<and> (collection s ''animal'' = map (\<lambda>(oid, a). stored oid (dump_animal a)) xs \<longrightarrow>
        list_animals repr pcre (Some s) q sp amin amax sz ft n =
          map (\<lambda>(oid, a). Some (dump_animal a @ [(''id'', PStr (oid_hex oid))]))
            (cursor_limit n
               (filter (\<lambda>(oid, a). supplied_conj pcre (nonblank q) (nonblank sp) amin amax (nonblank sz) ft a)
                  xs)))"
  using matches_list_animals_filter list_animals_on_animals by blast

theorem filter_is_conjunction_of_nonblank_witness:
  "collection [(''animal'', [stored 1 (dump_animal luna), stored 2 (dump_animal milo)])] ''animal''
     = map (\<lambda>(oid, a). stored oid (dump_animal a)) [(1, luna), (2, milo)]
   \<and> matches (\<lambda>p opts s. False)
       (list_animals_filter (Some ''lab'') (Some ''dog'') (Some 2) (Some 5) (Some '''') (Some True))
       (stored 1 (dump_animal luna))
   \<and> list_animals (\<lambda>v. []) (\<lambda>p opts s. False)
       (Some [(''animal'', [stored 1 (dump_animal luna), stored 2 (dump_animal milo)])])
       (Some ''lab'') (Some ''dog'') (Some 2) (Some 5) (Some '''') (Some True) 24
     = [Some (dump_animal luna @ [(''id'', PStr (oid_hex 1))])]"
  using filter_is_conjunction_of_nonblank [of "\<lambda>p opts s. False" "Some ''lab''" "Some ''dog''"
      "Some 2" "Some 5" "Some ''''" "Some True" 1 luna
      "[(''animal'', [stored 1 (dump_animal luna), stored 2 (dump_animal milo)])]"
      "[(1, luna), (2, milo)]" "\<lambda>v. []" 24] luna_lab milo_lab
  by (simp add: collection_def supplied_conj_def nonblank_def truthy_def cursor_limit_def)
    (simp add: luna_def milo_def)

text \<open>
  C5. The age constraint is the closed interval of the bounds that are supplied, each
  usable alone, in conjunction with the rest of the filter; with the bounds 2 and 5 the
  Animals that match are those of age 2, 3, 4 or 5.
\<close>

theorem age_bounds_closed_interval:
  "matches pcre (list_animals_filter q sp amin amax sz ft) (stored oid (dump_animal a))
     = ((case amin of None \<Rightarrow> True | Some m \<Rightarrow> m \<le> age a)
        \<and> (case amax of None \<Rightarrow> True | Some m \<Rightarrow> age a \<le> m)
        \<and> matches pcre (list_animals_filter q sp None None sz ft) (stored oid (dump_animal a)))
   \<and> matches pcre (list_animals_filter None None (Some 2) (Some 5) None None)
        (stored oid (dump_animal a))
     = (age a \<in> {2, 3, 4, 5})"
proof
  show "matches pcre (list_animals_filter q sp amin amax sz ft) (stored oid (dump_animal a))
     = ((case amin of None \<Rightarrow> True | Some m \<Rightarrow> m \<le> age a)
        \<and> (case amax of None \<Rightarrow> True | Some m \<Rightarrow> age a \<le> m)
        \<and> matches pcre (list_animals_filter q sp None None sz ft) (stored oid (dump_animal a)))"
    unfolding matches_list_animals_filter
    by (auto simp add: supplied_conj_def)
next
  have "(2 \<le> age a \<and> age a \<le> 5) = (age a \<in> {2, 3, 4, 5})"
    by auto
  then show "matches pcre (list_animals_filter None None (Some 2) (Some 5) None None)
        (stored oid (dump_animal a))
     = (age a \<in> {2, 3, 4, 5})"
    unfolding matches_list_animals_filter
    by (simp add: supplied_conj_def nonblank_def truthy_def)
qed

theorem age_bounds_closed_interval_witness:
  "matches (\<lambda>p opts s. False) (list_animals_filter None None (Some 2) (Some 5) None None)
     (stored 1 (dump_animal luna))
   \<and> matches (\<lambda>p opts s. False) (list_animals_filter None None (Some 2) None None None)
     (stored 1 (dump_animal (luna\<lparr>age := 6\<rparr>)))
   \<and> \<not> matches (\<lambda>p opts s. False) (list_animals_filter None None (Some 2) (Some 5) None None)
     (stored 1 (dump_animal (luna\<lparr>age := 6\<rparr>)))
   \<and> \<not> matches (\<lambda>p opts s. False) (list_animals_filter None None (Some 2) (Some 5) None None)
     (stored 1 (dump_animal (luna\<lparr>age := 1\<rparr>)))"
  using age_bounds_closed_interval [of "\<lambda>p opts s. False" None None "Some 2" "Some 5" None None 1 luna]
    age_bounds_closed_interval [of "\<lambda>p opts s. False" None None "Some 2" None None None 1 "luna\<lparr>age := 6\<rparr>"]
    age_bounds_closed_interval [of "\<lambda>p opts s. False" None None "Some 2" "Some 5" None None 1 "luna\<lparr>age := 6\<rparr>"]
    age_bounds_closed_interval [of "\<lambda>p opts s. False" None None "Some 2" "Some 5" None None 1 "luna\<lparr>age := 1\<rparr>"]
  by (simp add: luna_def list_animals_filter_eq truthy_def age_query_eq matches_Nil)

text \<open>
  C6. A supplied \<open>featured\<close> is an exact match on the field, in conjunction with the rest
  of the filter, also when its value is false; an absent one adds no entry to the filter.
\<close>

theorem featured_exact_when_present:
  "matches pcre (list_animals_filter q sp amin amax sz ft) (stored oid (dump_animal a))
     = ((case ft of None \<Rightarrow> True | Some b \<Rightarrow> featured a = b)
        \<and> matches pcre (list_animals_filter q sp amin amax sz None) (stored oid (dump_animal a)))
   \<and> list_animals_filter None None None None None (Some False)
       = [(''featured'', FCond (FEq (PBool False)))]
   \<and> list_animals_filter None None None None None None = []
   \<and> matches pcre (list_animals_filter None None None None None (Some False))
        (stored oid (dump_animal a))
     = (featured a = False)
   \<and> matches pcre (list_animals_filter None None None None None None) (stored oid (dump_animal a))"
proof (intro conjI)
  show "matches pcre (list_animals_filter q sp amin amax sz ft) (stored oid (dump_animal a))
     = ((case ft of None \<Rightarrow> True | Some b \<Rightarrow> featured a = b)
        \<and> matches pcre (list_animals_filter q sp amin amax sz None) (stored oid (dump_animal a)))"
    unfolding matches_list_animals_filter
    by (auto simp add: supplied_conj_def)
next
  show "list_animals_filter None None None None None (Some False)
       = [(''featured'', FCond (FEq (PBool False)))]"
    by (simp add: list_animals_filter_eq truthy_def age_query_eq)
next
  show "list_animals_filter None None None None None None = []"
    by (simp add: list_animals_filter_eq truthy_def age_query_eq)
next
  show "matches pcre (list_animals_filter None None None None None (Some False))
        (stored oid (dump_animal a))
     = (featured a = False)"
    unfolding matches_list_animals_filter
    by (simp add: supplied_conj_def nonblank_def truthy_def)
next
  show "matches pcre (list_animals_filter None None None None None None) (stored oid (dump_animal a))"
    unfolding matches_list_animals_filter
    by (simp add: supplied_conj_def nonblank_def truthy_def)
qed

theorem featured_exact_when_present_witness:
  "\<not> matches (\<lambda>p opts s. False) (list_animals_filter None None None None None (Some False))
       (stored 1 (dump_animal luna))
   \<and> matches (\<lambda>p opts s. False) (list_animals_filter None None None None None (Some False))
       (stored 3 (dump_animal (luna\<lparr>featured := False\<rparr>)))
   \<and> matches (\<lambda>p opts s. False) (list_animals_filter None None None None None None)
       (stored 1 (dump_animal luna))"
proof -
  note t1 = featured_exact_when_present
    [of "\<lambda>p opts s. False" None None None None None "Some False" 1 luna]
  note t2 = featured_exact_when_present
    [of "\<lambda>p opts s. False" None None None None None "Some False" 3 "luna\<lparr>featured := False\<rparr>"]
  from t1 have a: "matches (\<lambda>p opts s. False) (list_animals_filter None None None None None (Some False))
       (stored 1 (dump_animal luna)) = (featured luna = False)"
    by blast
  from t2 have b: "matches (\<lambda>p opts s. False) (list_animals_filter None None None None None (Some False))
       (stored 3 (dump_animal (luna\<lparr>featured := False\<rparr>))) = (featured (luna\<lparr>featured := False\<rparr>) = False)"
    by blast
  from t1 have c: "matches (\<lambda>p opts s. False) (list_animals_filter None None None None None None)
       (stored 1 (dump_animal luna))"
    by blast
  show ?thesis
    unfolding a b using c by (simp add: luna_def)
qed

section \<open>The free-text parameter\<close>

text \<open>
  On a pattern of ordinary characters the search of the store is the case-insensitive
  substring test of the specification.
\<close>

lemma plain_char_not_dot: "plain_char c \<Longrightarrow> c \<noteq> CHR ''.''"
  by (auto simp add: plain_char_def regex_meta_def)

lemma match_here_prefix:
  "CHR ''.'' \<notin> set q \<Longrightarrow> match_here True q s = prefix (map to_lower q) (map to_lower s)"
  by (induction True q s rule: match_here.induct) auto

lemma search_sublist:
  "CHR ''.'' \<notin> set q \<Longrightarrow> search True q s = ci_contains q s"
proof (induction s)
  case Nil
  then show ?case
    by (cases q) (simp_all add: ci_contains_def)
next
  case (Cons c cs)
  then show ?case
    by (simp add: ci_contains_def sublist_Cons_right match_here_prefix)
qed

lemma regex_search_literal:
  assumes "list_all plain_char q" and "list_all ascii s"
  shows "regex_search pcre q ''i'' s = ci_contains q s"
proof -
  have nodot: "CHR ''.'' \<notin> set q"
    using assms(1) plain_char_not_dot by (auto simp add: list_all_iff)
  have "list_all (\<lambda>c. c = CHR ''.'' \<or> plain_char c) q"
    using assms(1) by (auto simp add: list_all_iff)
  then have "regex_search pcre q ''i'' s = search True q s"
    using assms(2) by (simp add: regex_search_def)
  then show ?thesis
    by (simp add: search_sublist nodot)
qed

lemma q_regex_literal:
  assumes "list_all plain_char q" and "ascii_fields a"
  shows "q_regex pcre q a = q_spec q a"
  using assms
  by (auto simp add: q_regex_def q_spec_def ascii_fields_def regex_search_literal
      split: option.splits)

lemma q_spec_blank: "q_spec [] a"
  by (simp add: q_spec_def ci_contains_def)

lemma luna_ascii_fields: "ascii_fields luna"
  by (simp add: ascii_fields_def luna_def ascii_def)

text \<open>
  C2. As stated the claim fails: \<open>q\<close> is sent to the store as a regular expression, so
  \<open>L.na\<close> finds Luna, none of whose fields contains the four characters \<open>L.na\<close>.
\<close>

theorem q_wildcard_counterexample:
  "matches (\<lambda>p opts s. False) (list_animals_filter (Some ''L.na'') None None None None None)
     (stored 1 (dump_animal luna))
   \<and> \<not> q_spec ''L.na'' luna"
proof
  have "q_regex (\<lambda>p opts s. False) ''L.na'' luna"
    by (simp add: q_regex_def regex_search_def luna_def plain_char_def ascii_def regex_meta_def
        to_lower_def)
  then show "matches (\<lambda>p opts s. False) (list_animals_filter (Some ''L.na'') None None None None None)
     (stored 1 (dump_animal luna))"
    by (simp add: matches_list_animals_filter supplied_conj_def nonblank_def truthy_def)
next
  show "\<not> q_spec ''L.na'' luna"
    by (simp add: q_spec_def ci_contains_def luna_def to_lower_def sublist_code(3))
qed

text \<open>
  C2, amended. For a \<open>q\<close> of ordinary ASCII characters (none of them a metacharacter of
  regular expressions) and an Animal with ASCII name, breed and description, the
  constraint of \<open>q\<close> holds iff one of the three fields contains \<open>q\<close> as a
  case-insensitive substring, in conjunction with the rest of the filter.
\<close>

theorem q_literal_is_substring:
  assumes "list_all plain_char q" and "ascii_fields a"
  shows "matches pcre (list_animals_filter (Some q) sp amin amax sz ft) (stored oid (dump_animal a))
           = (q_spec q a
              \<and> matches pcre (list_animals_filter None sp amin amax sz ft) (stored oid (dump_animal a)))"
proof (cases "q = []")
  case True
  then show ?thesis
    by (simp add: matches_list_animals_filter nonblank_def truthy_def q_spec_blank)
next
  case False
  then show ?thesis
    using assms
    by (simp add: matches_list_animals_filter nonblank_def truthy_def supplied_conj_def
        q_regex_literal)
qed

theorem q_literal_is_substring_witness:
  "list_all plain_char ''lab'' \<and> ascii_fields luna \<and> q_spec ''lab'' luna
   \<and> matches (\<lambda>p opts s. False) (list_animals_filter (Some ''lab'') None None None None None)
       (stored 1 (dump_animal luna))"
proof -
  have p: "list_all plain_char ''lab''"
    by (simp add: plain_char_def ascii_def regex_meta_def)
  have s: "q_spec ''lab'' luna"
    by (simp add: q_spec_def ci_contains_def luna_def to_lower_def sublist_code(3))
  have n: "matches (\<lambda>p opts s. False) (list_animals_filter None None None None None None)
       (stored 1 (dump_animal luna))"
    by (simp add: list_animals_filter_eq truthy_def age_query_eq matches_Nil)
  show ?thesis
    using q_literal_is_substring [OF p luna_ascii_fields, of "\<lambda>p opts s. False" None None None None None 1]
      p s n luna_ascii_fields
    by simp
qed

section \<open>Parameter validation of the animal search\<close>

text \<open>
  C10. A negative \<open>age_min\<close> or \<open>age_max\<close> is answered with a validation error that
  names the parameter and its bound; a request that is accepted has no negative bound, and
  neither has the range that its filter carries.
\<close>

theorem negative_age_bound_rejected:
  "(amin = Some m \<and> m < 0 \<longrightarrow>
      (\<exists>vs. GET_animals repr pcre db q sp amin amax sz ft limit = Inl (RequestValidationError vs)
          \<and> (''age_min'', NotGreaterEqual 0) \<in> set vs))
   \<and> (amax = Some m \<and> m < 0 \<longrightarrow>
      (\<exists>vs. GET_animals repr pcre db q sp amin amax sz ft limit = Inl (RequestValidationError vs)
          \<and> (''age_max'', NotGreaterEqual 0) \<in> set vs))
   \<and> (GET_animals repr pcre db q sp amin amax sz ft limit = Inr r \<longrightarrow>
        (case amin of None \<Rightarrow> True | Some b \<Rightarrow> 0 \<le> b)
        \<and> (case amax of None \<Rightarrow> True | Some b \<Rightarrow> 0 \<le> b)
        \<and> list_all (\<lambda>(k, v). case v of PInt b \<Rightarrow> 0 \<le> b | _ \<Rightarrow> False) (age_query amin amax))"
proof (intro conjI impI)
  assume "amin = Some m \<and> m < 0"
  then show "\<exists>vs. GET_animals repr pcre db q sp amin amax sz ft limit = Inl (RequestValidationError vs)
          \<and> (''age_min'', NotGreaterEqual 0) \<in> set vs"
    by (simp add: GET_animals_def list_animals_violations_def check_ge_def)
next
  assume "amax = Some m \<and> m < 0"
  then show "\<exists>vs. GET_animals repr pcre db q sp amin amax sz ft limit = Inl (RequestValidationError vs)
          \<and> (''age_max'', NotGreaterEqual 0) \<in> set vs"
    by (simp add: GET_animals_def list_animals_violations_def check_ge_def)
next
  assume ok: "GET_animals repr pcre db q sp amin amax sz ft limit = Inr r"
  then have v: "check_ge ''age_min'' 0 amin = []" "check_ge ''age_max'' 0 amax = []"
    by (simp_all add: GET_animals_def list_animals_violations_def Let_def split: if_splits)
  from v(1) show lo: "case amin of None \<Rightarrow> True | Some b \<Rightarrow> 0 \<le> b"
    by (simp add: check_ge_def split: option.splits if_splits)
  from v(2) show hi: "case amax of None \<Rightarrow> True | Some b \<Rightarrow> 0 \<le> b"
    by (simp add: check_ge_def split: option.splits if_splits)
  from lo hi show "list_all (\<lambda>(k, v). case v of PInt b \<Rightarrow> 0 \<le> b | _ \<Rightarrow> False) (age_query amin amax)"
    by (simp add: age_query_eq split: option.splits)
qed

theorem negative_age_bound_rejected_witness:
  "GET_animals (\<lambda>v. []) (\<lambda>p opts s. False) None None None (Some (- 1)) None None None None
     = Inl (RequestValidationError [(''age_min'', NotGreaterEqual 0)])
   \<and> GET_animals (\<lambda>v. []) (\<lambda>p opts s. False) None None None None (Some (- 3)) None None None
     = Inl (RequestValidationError [(''age_max'', NotGreaterEqual 0)])
   \<and> GET_animals (\<lambda>v. []) (\<lambda>p opts s. False) None None None (Some 0) (Some 5) None None None = Inr []
   \<and> age_query (Some 0) (Some 5) = [(''$gte'', PInt 0), (''$lte'', PInt 5)]"
  using negative_age_bound_rejected [of "Some (- 1)" "- 1" "\<lambda>v. []" "\<lambda>p opts s. False" None None None None None None None "[]"]
    negative_age_bound_rejected [of None "- 3" "\<lambda>v. []" "\<lambda>p opts s. False" None None None "Some (- 3)" None None None "[]"]
    negative_age_bound_rejected [of "Some 0" 0 "\<lambda>v. []" "\<lambda>p opts s. False" None None None "Some 5" None None None "[]"]
  by (simp add: GET_animals_def list_animals_violations_def check_ge_def check_le_def
      list_animals_def age_query_eq)

text \<open>
  C3. The endpoint of the stories accepts every \<open>limit\<close>: 0 and 101 reach the handler,
  and with 0 the handler returns every story. The endpoint of the animals rejects 0 and
  101, accepts 1 and 100, and takes 24 when no limit is given; the stories take 6.
\<close>

theorem stories_limit_unchecked:
  "GET_stories repr pcre db (Some 0) = Inr (get_stories repr pcre db 0)
   \<and> GET_stories repr pcre db (Some 101) = Inr (get_stories repr pcre db 101)
   \<and> get_stories repr pcre (Some s) 0 = map (\<lambda>d. to_public repr (Some d)) (collection s ''story'')
   \<and> GET_stories repr pcre db None = Inr (get_stories repr pcre db 6)
   \<and> GET_animals repr pcre db q sp None None sz ft (Some 0)
       = Inl (RequestValidationError [(''limit'', NotGreaterEqual 1)])
   \<and> GET_animals repr pcre db q sp None None sz ft (Some 101)
       = Inl (RequestValidationError [(''limit'', NotLessEqual 100)])
   \<and> GET_animals repr pcre db q sp None None sz ft (Some 1)
       = Inr (list_animals repr pcre db q sp None None sz ft 1)
   \<and> GET_animals repr pcre db q sp None None sz ft (Some 100)
       = Inr (list_animals repr pcre db q sp None None sz ft 100)
   \<and> GET_animals repr pcre db q sp None None sz ft None
       = Inr (list_animals repr pcre db q sp None None sz ft 24)"
  by (simp add: GET_stories_def GET_animals_def list_animals_violations_def check_ge_def
      check_le_def get_stories_def cursor_limit_def coll_find_def matches_Nil)

section \<open>The write endpoints\<close>

text \<open>
  A validation that fails reports at least one violation, and a donation that validates
  has a positive amount.
\<close>

lemma required_Inl: "required n v kv = Inl e \<Longrightarrow> e \<noteq> []"
  by (auto simp add: required_def split: option.splits sum.splits)

lemma defaulted_Inl: "defaulted n d v kv = Inl e \<Longrightarrow> e \<noteq> []"
  by (auto simp add: defaulted_def split: option.splits sum.splits)

lemma errs_Inr: "errs (Inr x) = []"
  by (simp add: errs_def)

lemma errs_Inl: "errs (Inl e) = e"
  by (simp add: errs_def)

lemma validate_application_Inl:
  assumes "validate_application lib body = Inl vs"
  shows "vs \<noteq> []"
proof (cases body)
  case (JObj kv)
  show ?thesis
    using assms unfolding JObj validate_application_def Let_def
    by (auto simp add: errs_Inl errs_Inr split: sum.splits
        dest: required_Inl defaulted_Inl)
qed (use assms in \<open>auto simp add: validate_application_def\<close>)

lemma validate_volunteer_Inl:
  assumes "validate_volunteer lib body = Inl vs"
  shows "vs \<noteq> []"
proof (cases body)
  case (JObj kv)
  show ?thesis
    using assms unfolding JObj validate_volunteer_def Let_def
    by (auto simp add: errs_Inl errs_Inr split: sum.splits
        dest: required_Inl defaulted_Inl)
qed (use assms in \<open>auto simp add: validate_volunteer_def\<close>)

lemma validate_donation_Inl:
  assumes "validate_donation lib body = Inl vs"
  shows "vs \<noteq> []"
proof (cases body)
  case (JObj kv)
  show ?thesis
    using assms unfolding JObj validate_donation_def Let_def
    by (auto simp add: errs_Inl errs_Inr split: sum.splits
        dest: required_Inl defaulted_Inl)
qed (use assms in \<open>auto simp add: validate_donation_def\<close>)

lemma amount_violation:
  assumes "map_of kv ''amount'' = Some j" and "v_float lib j = Inr r" and "r \<le> 0"
  shows "required ''amount'' (v_gt 0 (v_float lib)) kv = Inl [(''amount'', NotGreaterThan 0)]"
  using assms by (simp add: required_def v_gt_def)

lemma validate_donation_nonpositive:
  assumes "map_of kv ''amount'' = Some j" and "v_float lib j = Inr r" and "r \<le> 0"
  shows "\<exists>vs. validate_donation lib (JObj kv) = Inl vs \<and> (''amount'', NotGreaterThan 0) \<in> set vs"
  by (auto simp add: validate_donation_def Let_def amount_violation [OF assms] errs_Inl errs_Inr
      split: sum.splits)

lemma validate_donation_Inr:
  assumes "validate_donation lib body = Inr p"
  shows "0 < amount p"
proof (cases body)
  case (JObj kv)
  show ?thesis
    using assms unfolding JObj validate_donation_def Let_def
    by (auto simp add: required_def v_gt_def split: sum.splits option.splits if_splits)
qed (use assms in \<open>auto simp add: validate_donation_def\<close>)

lemma oid_hex_nonempty: "oid_hex oid \<noteq> []"
  by (simp add: oid_hex_def)

text \<open>
  C8. A donation whose amount is a number that is zero or negative is answered with a
  validation error that names the amount, and the store is as before. A donation that
  validates has a positive amount and, with the store configured, is answered with the
  24 digits of the assigned identity under \<open>id\<close> and the status \<open>pledged\<close>, and is added
  to the collection of the donations.
\<close>

theorem donation_amount_strictly_positive:
  "(map_of kv ''amount'' = Some j \<and> v_float lib j = Inr r \<and> r \<le> 0 \<longrightarrow>
      (\<exists>vs. POST_donations lib db oid (JObj kv) = (Inl (RequestValidationError vs), db)
          \<and> (''amount'', NotGreaterThan 0) \<in> set vs))
   \<and> (validate_donation lib body = Inr p \<longrightarrow>
        0 < amount p
        \<and> POST_donations lib (Some s) oid body
            = (Inr [(''id'', PStr (oid_hex oid)), (''status'', PStr ''pledged'')],
               Some (AList.update ''donation''
                       (collection s ''donation'' @ [stored oid (dump_donation p)]) s))
        \<and> oid_hex oid \<noteq> [])"
proof (intro conjI impI)
  assume "map_of kv ''amount'' = Some j \<and> v_float lib j = Inr r \<and> r \<le> 0"
  then obtain vs where "validate_donation lib (JObj kv) = Inl vs"
      and "(''amount'', NotGreaterThan 0) \<in> set vs"
    using validate_donation_nonpositive by blast
  then show "\<exists>vs. POST_donations lib db oid (JObj kv) = (Inl (RequestValidationError vs), db)
          \<and> (''amount'', NotGreaterThan 0) \<in> set vs"
    by (simp add: POST_donations_def)
next
  assume ok: "validate_donation lib body = Inr p"
  then show "0 < amount p"
    by (rule validate_donation_Inr)
  from ok show "POST_donations lib (Some s) oid body
            = (Inr [(''id'', PStr (oid_hex oid)), (''status'', PStr ''pledged'')],
               Some (AList.update ''donation''
                       (collection s ''donation'' @ [stored oid (dump_donation p)]) s))"
    by (simp add: POST_donations_def submit_donation_def create_document_def)
  show "oid_hex oid \<noteq> []"
    by (rule oid_hex_nonempty)
qed

theorem donation_amount_strictly_positive_witness:
  "POST_donations no_conversion (Some []) 0x507f1f77bcf86cd799439011 (donation_body (JInt 0))
     = (Inl (RequestValidationError [(''amount'', NotGreaterThan 0)]), Some [])
   \<and> POST_donations no_conversion (Some []) 0x507f1f77bcf86cd799439011 (donation_body (JInt (- 5)))
     = (Inl (RequestValidationError [(''amount'', NotGreaterThan 0)]), Some [])
   \<and> validate_donation no_conversion (donation_body (JFloat (51 / 2)))
     = Inr \<lparr>full_name = ''Ann'', email = None, amount = 51 / 2, message = None\<rparr>
   \<and> POST_donations no_conversion (Some []) 0x507f1f77bcf86cd799439011 (donation_body (JFloat (51 / 2)))
     = (Inr [(''id'', PStr ''507f1f77bcf86cd799439011''), (''status'', PStr ''pledged'')],
        Some [(''donation'',
               [stored 0x507f1f77bcf86cd799439011
                  (dump_donation \<lparr>full_name = ''Ann'', email = None, amount = 51 / 2, message = None\<rparr>)])])"
proof -
  have v: "validate_donation no_conversion (donation_body (JFloat (51 / 2)))
     = Inr \<lparr>full_name = ''Ann'', email = None, amount = 51 / 2, message = None\<rparr>"
    by (simp add: validate_donation_def donation_body_def required_def defaulted_def v_str_def
        v_gt_def v_float_def)
  have z: "POST_donations no_conversion (Some []) 0x507f1f77bcf86cd799439011 (donation_body (JInt 0))
     = (Inl (RequestValidationError [(''amount'', NotGreaterThan 0)]), Some [])"
    by (simp add: POST_donations_def validate_donation_def donation_body_def required_def
        defaulted_def v_str_def v_gt_def v_float_def errs_def)
  have n: "POST_donations no_conversion (Some []) 0x507f1f77bcf86cd799439011 (donation_body (JInt (- 5)))
     = (Inl (RequestValidationError [(''amount'', NotGreaterThan 0)]), Some [])"
    by (simp add: POST_donations_def validate_donation_def donation_body_def required_def
        defaulted_def v_str_def v_gt_def v_float_def errs_def)
  show ?thesis
    using donation_amount_strictly_positive
      [of "[(''full_name'', JStr ''Ann''), (''amount'', JInt 0)]" "JInt 0" no_conversion 0
        "Some []" "0x507f1f77bcf86cd799439011" "donation_body (JFloat (51 / 2))"
        "\<lparr>full_name = ''Ann'', email = None, amount = 51 / 2, message = None\<rparr>" "[]"]
      v z n oid_example
    by (simp add: collection_def)
qed

text \<open>
  C9. On each of the three write endpoints a body that fails validation is answered with
  a validation error that carries the violations, of which there is at least one, and the
  store is as before. An application whose e-mail is \<open>not-an-email\<close> fails so, whatever
  its other fields are.
\<close>

theorem invalid_body_never_reaches_store:
  "(validate_application lib body = Inl vs \<longrightarrow>
      vs \<noteq> [] \<and> POST_applications lib db oid body = (Inl (RequestValidationError vs), db))
   \<and> (validate_volunteer lib body = Inl vs \<longrightarrow>
      vs \<noteq> [] \<and> POST_volunteers lib db oid body = (Inl (RequestValidationError vs), db))
   \<and> (validate_donation lib body = Inl vs \<longrightarrow>
      vs \<noteq> [] \<and> POST_donations lib db oid body = (Inl (RequestValidationError vs), db))
   \<and> (map_of kv ''email'' = Some (JStr ''not-an-email'') \<longrightarrow>
      (\<exists>es. POST_applications lib db oid (JObj kv) = (Inl (RequestValidationError es), db)
          \<and> (''email'', BadEmail) \<in> set es))"
proof (intro conjI impI)
  assume "validate_application lib body = Inl vs"
  then show "vs \<noteq> []" "POST_applications lib db oid body = (Inl (RequestValidationError vs), db)"
    by (simp_all add: validate_application_Inl POST_applications_def)
next
  assume "validate_volunteer lib body = Inl vs"
  then show "vs \<noteq> []" "POST_volunteers lib db oid body = (Inl (RequestValidationError vs), db)"
    by (simp_all add: validate_volunteer_Inl POST_volunteers_def)
next
  assume "validate_donation lib body = Inl vs"
  then show "vs \<noteq> []" "POST_donations lib db oid body = (Inl (RequestValidationError vs), db)"
    by (simp_all add: validate_donation_Inl POST_donations_def)
next
  assume e: "map_of kv ''email'' = Some (JStr ''not-an-email'')"
  have r: "required ''email'' (v_email lib) kv = Inl [(''email'', BadEmail)]"
    using e by (simp add: required_def v_email_def v_str_def)
  have "\<exists>es. validate_application lib (JObj kv) = Inl es \<and> (''email'', BadEmail) \<in> set es"
    by (auto simp add: validate_application_def Let_def r errs_Inl errs_Inr split: sum.splits)
  then show "\<exists>es. POST_applications lib db oid (JObj kv) = (Inl (RequestValidationError es), db)
          \<and> (''email'', BadEmail) \<in> set es"
    by (auto simp add: POST_applications_def)
qed

theorem invalid_body_never_reaches_store_witness:
  "validate_application no_conversion application_body = Inl [(''email'', BadEmail)]
   \<and> POST_applications no_conversion (Some [(''application'', [])]) 7 application_body
       = (Inl (RequestValidationError [(''email'', BadEmail)]), Some [(''application'', [])])
   \<and> validate_volunteer no_conversion (JObj []) = Inl [(''full_name'', Missing), (''email'', Missing)]
   \<and> POST_volunteers no_conversion (Some []) 7 (JObj [])
       = (Inl (RequestValidationError [(''full_name'', Missing), (''email'', Missing)]), Some [])
   \<and> validate_donation no_conversion (donation_body (JInt 0)) = Inl [(''amount'', NotGreaterThan 0)]
   \<and> POST_donations no_conversion (Some []) 7 (donation_body (JInt 0))
       = (Inl (RequestValidationError [(''amount'', NotGreaterThan 0)]), Some [])"
proof -
  have a: "validate_application no_conversion application_body = Inl [(''email'', BadEmail)]"
    by (simp add: validate_application_def application_body_def required_def defaulted_def
        v_str_def v_email_def errs_def)
  have b: "validate_volunteer no_conversion (JObj []) = Inl [(''full_name'', Missing), (''email'', Missing)]"
    by (simp add: validate_volunteer_def required_def defaulted_def errs_def)
  have c: "validate_donation no_conversion (donation_body (JInt 0)) = Inl [(''amount'', NotGreaterThan 0)]"
    by (simp add: validate_donation_def donation_body_def required_def defaulted_def
        v_str_def v_gt_def v_float_def errs_def)
  show ?thesis
    using invalid_body_never_reaches_store
        [of no_conversion application_body "[(''email'', BadEmail)]" "Some [(''application'', [])]" 7 "[]"]
      invalid_body_never_reaches_store
        [of no_conversion "JObj []" "[(''full_name'', Missing), (''email'', Missing)]" "Some []" 7 "[]"]
      invalid_body_never_reaches_store
        [of no_conversion "donation_body (JInt 0)" "[(''amount'', NotGreaterThan 0)]" "Some []" 7 "[]"]
      a b c
    by simp
qed

end
